theory Spec2Isabelle
  imports Main
begin

section \<open>Signed JSON Web Tokens of \<^verbatim>\<open>oauth2client/crypt.py\<close>\<close>

text \<open>
  The module was written for Python 2, but as it stands it is Python 3 source: the two
  assignment expressions \<^verbatim>\<open>(iat := parsed.get('iat'))\<close> and \<^verbatim>\<open>(exp := parsed.get('exp'))\<close>
  parse from Python 3.8 on and in no Python 2. It is therefore read with the semantics of
  Python 3: text (\<^verbatim>\<open>str\<close>) and bytes are different types that do not mix, values of
  different types are not ordered, and there is no \<^verbatim>\<open>long\<close>. A \<^verbatim>\<open>str\<close> is a
  \<^typ>\<open>string\<close> with one \<^typ>\<open>char\<close> per code point (code points above 255 are outside the
  model; a \<^typ>\<open>char\<close> above 127 is a code point that is not ASCII), a \<^verbatim>\<open>bytes\<close> object is a
  \<^typ>\<open>string\<close> with one \<^typ>\<open>char\<close> per byte, and where a function may receive either, its
  argument is a \<open>pyval\<close>. Every \<^verbatim>\<open>raise\<close> is a value \<open>Inl e\<close> of the result type
  \<open>exn + 'a\<close>. The cryptographic primitives, the JSON serialiser, the arithmetic of floating
  point numbers and the clock are outside the module and enter as parameters; the
  \<^verbatim>\<open>base64\<close> and \<^verbatim>\<open>binascii\<close> functions of the standard library, on which the two encoding
  helpers rest, are written out.
\<close>

subsection \<open>Exceptions\<close>

text \<open>
  The module has one exception class of its own, \<^verbatim>\<open>AppIdentityError\<close>, raised with ten
  different messages; the constructor argument names the message (the formatted token and
  timestamps inside the message text are left out).
\<close>

datatype app_identity_error =
    Wrong_number_of_segments
  | Cant_parse_token
  | Invalid_token_signature
  | No_iat_field
  | No_exp_field
  | Exp_field_too_far_in_future
  | Token_used_too_early
  | Token_used_too_late
  | No_aud_field
  | Wrong_recipient

datatype exn =
    AppIdentityError app_identity_error
  | TypeError
  | UnicodeEncodeError
  | AttributeError
  | NameError
  | NotImplementedError
  | BinasciiError
  | ValueError
  | CryptoError

subsection \<open>Constants of the module\<close>

definition CLOCK_SKEW_SECS :: int where
  "CLOCK_SKEW_SECS = 300"

definition AUTH_TOKEN_LIFETIME_SECS :: int where
  "AUTH_TOKEN_LIFETIME_SECS = 300"

definition MAX_TOKEN_LIFETIME_SECS :: int where
  "MAX_TOKEN_LIFETIME_SECS = 86400"

subsection \<open>Python values that \<^verbatim>\<open>simplejson\<close> reads and writes\<close>

text \<open>
  A dictionary is the list of its items; \<^verbatim>\<open>d.get(k)\<close> is the first item with key \<open>k\<close>, or
  \<^verbatim>\<open>None\<close>. A \<^verbatim>\<open>float\<close> is its 64 bits, read as a number; what the interpreter computes on
  floats (with its rounding, infinities and NaN) is a parameter.
\<close>

type_synonym float_bits = nat

datatype json =
    JNull
  | JBool bool
  | JInt int
  | JFloat float_bits
  | JStr string
  | JArr "json list"
  | JObj "(string \<times> json) list"

record float_arith =
  float_sub :: "float_bits \<Rightarrow> int \<Rightarrow> float_bits"
  float_add :: "float_bits \<Rightarrow> int \<Rightarrow> float_bits"
  float_ge :: "float_bits \<Rightarrow> int \<Rightarrow> bool"
  float_lt :: "int \<Rightarrow> float_bits \<Rightarrow> bool"
  float_gt :: "int \<Rightarrow> float_bits \<Rightarrow> bool"

fun dict_get :: "json \<Rightarrow> string \<Rightarrow> exn + json" where
  "dict_get (JObj items) k = Inr (case map_of items k of None \<Rightarrow> JNull | Some v \<Rightarrow> v)"
| "dict_get _ k = Inl AttributeError"

text \<open>\<^verbatim>\<open>v - n\<close> and \<^verbatim>\<open>v + n\<close> for an integer \<open>n\<close>: defined on numbers (a boolean is an integer
  in Python), a \<^verbatim>\<open>TypeError\<close> on everything else.\<close>

fun py_sub :: "float_arith \<Rightarrow> json \<Rightarrow> int \<Rightarrow> exn + json" where
  "py_sub fp (JInt i) n = Inr (JInt (i - n))"
| "py_sub fp (JBool b) n = Inr (JInt ((if b then 1 else 0) - n))"
| "py_sub fp (JFloat x) n = Inr (JFloat (float_sub fp x n))"
| "py_sub fp _ n = Inl TypeError"

fun py_add :: "float_arith \<Rightarrow> json \<Rightarrow> int \<Rightarrow> exn + json" where
  "py_add fp (JInt i) n = Inr (JInt (i + n))"
| "py_add fp (JBool b) n = Inr (JInt ((if b then 1 else 0) + n))"
| "py_add fp (JFloat x) n = Inr (JFloat (float_add fp x n))"
| "py_add fp _ n = Inl TypeError"

text \<open>The comparisons \<^verbatim>\<open>v >= n\<close>, \<^verbatim>\<open>n < v\<close> and \<^verbatim>\<open>n > v\<close>: between numbers by value, a
  \<^verbatim>\<open>TypeError\<close> when \<open>v\<close> is no number.\<close>

fun py_ge :: "float_arith \<Rightarrow> json \<Rightarrow> int \<Rightarrow> exn + bool" where
  "py_ge fp (JInt i) n = Inr (i \<ge> n)"
| "py_ge fp (JBool b) n = Inr ((if b then 1 else 0) \<ge> n)"
| "py_ge fp (JFloat x) n = Inr (float_ge fp x n)"
| "py_ge fp _ n = Inl TypeError"

fun py_lt :: "float_arith \<Rightarrow> int \<Rightarrow> json \<Rightarrow> exn + bool" where
  "py_lt fp n (JInt i) = Inr (n < i)"
| "py_lt fp n (JBool b) = Inr (n < (if b then 1 else 0))"
| "py_lt fp n (JFloat x) = Inr (float_lt fp n x)"
| "py_lt fp n _ = Inl TypeError"

fun py_gt :: "float_arith \<Rightarrow> int \<Rightarrow> json \<Rightarrow> exn + bool" where
  "py_gt fp n (JInt i) = Inr (n > i)"
| "py_gt fp n (JBool b) = Inr (n > (if b then 1 else 0))"
| "py_gt fp n (JFloat x) = Inr (float_gt fp n x)"
| "py_gt fp n _ = Inl TypeError"

text \<open>The name \<^verbatim>\<open>long\<close> is bound nowhere in the module and is no builtin of Python 3:
  looking it up raises \<^verbatim>\<open>NameError\<close>, before the argument of the call is evaluated.\<close>

definition lookup_long :: "exn + (int \<Rightarrow> int)" where
  "lookup_long = Inl NameError"

subsection \<open>Text and bytes\<close>

datatype pyval = Str string | Bytes string

text \<open>
  \<^verbatim>\<open>s.split(sep)\<close> of a text for a one-character separator; \<^verbatim>\<open>sep.join(xs)\<close> of a text
  separator, which raises on an item that is no text; \<^verbatim>\<open>b.rstrip(chars)\<close> of bytes, which raises
  when \<^verbatim>\<open>chars\<close> is text; \<^verbatim>\<open>b.translate\<close> for two bytes; \<^verbatim>\<open>x.encode('ascii')\<close>, a method of
  text only, which raises on a code point above 127; and \<^verbatim>\<open>b + x\<close> for bytes \<open>b\<close>, which raises
  when \<open>x\<close> is text.
\<close>

fun str_split :: "char \<Rightarrow> string \<Rightarrow> string list" where
  "str_split sep [] = [[]]"
| "str_split sep (c # cs) =
     (if c = sep then [] # str_split sep cs
      else (case str_split sep cs of [] \<Rightarrow> [[c]] | w # ws \<Rightarrow> (c # w) # ws))"

fun join_texts :: "string \<Rightarrow> string list \<Rightarrow> string" where
  "join_texts sep [] = []"
| "join_texts sep [x] = x"
| "join_texts sep (x # xs) = x @ sep @ join_texts sep xs"

fun the_texts :: "pyval list \<Rightarrow> string list option" where
  "the_texts [] = Some []"
| "the_texts (Str s # xs) = map_option ((#) s) (the_texts xs)"
| "the_texts (Bytes b # xs) = None"

definition str_join :: "string \<Rightarrow> pyval list \<Rightarrow> exn + string" where
  "str_join sep xs = (case the_texts xs of None \<Rightarrow> Inl TypeError | Some ts \<Rightarrow> Inr (join_texts sep ts))"

definition str_rstrip :: "string \<Rightarrow> string \<Rightarrow> string" where
  "str_rstrip chars s = rev (dropWhile (\<lambda>c. c \<in> set chars) (rev s))"

definition bytes_rstrip :: "string \<Rightarrow> pyval \<Rightarrow> exn + string" where
  "bytes_rstrip b chars = (case chars of Bytes cs \<Rightarrow> Inr (str_rstrip cs b) | Str _ \<Rightarrow> Inl TypeError)"

definition str_translate :: "char \<Rightarrow> char \<Rightarrow> char \<Rightarrow> char \<Rightarrow> string \<Rightarrow> string" where
  "str_translate f1 f2 t1 t2 s = map (\<lambda>c. if c = f1 then t1 else if c = f2 then t2 else c) s"

definition encode_ascii :: "pyval \<Rightarrow> exn + string" where
  "encode_ascii x =
     (case x of
        Bytes _ \<Rightarrow> Inl AttributeError
      | Str s \<Rightarrow> if \<exists>c \<in> set s. of_char c > (127::nat) then Inl UnicodeEncodeError else Inr s)"

definition bytes_add :: "string \<Rightarrow> pyval \<Rightarrow> exn + string" where
  "bytes_add b x = (case x of Bytes c \<Rightarrow> Inr (b @ c) | Str _ \<Rightarrow> Inl TypeError)"

subsection \<open>The standard library's base64 codec\<close>

text \<open>
  \<^verbatim>\<open>binascii.b2a_base64\<close> writes four digits of the table for every three bytes, pads a
  last group of one or two bytes with \<^verbatim>\<open>=\<close>, and appends a newline when asked to.
  \<^verbatim>\<open>binascii.a2b_base64\<close> is CPython's lenient decoder: it walks the input with a
  position in the current group of four (\<open>quad_pos\<close>) and a bit buffer (\<open>leftchar\<close>,
  \<open>leftbits\<close>), skips every byte outside the table, skips a \<^verbatim>\<open>=\<close> that cannot end the
  data, stops at one that can, and raises \<^verbatim>\<open>binascii.Error\<close> when bits are left over at the
  end.
\<close>

definition table_b2a_base64 :: string where
  "table_b2a_base64 = ''ABCDEFGHIJKLMNOPQRSTUVWXYZabcdefghijklmnopqrstuvwxyz0123456789+/''"

definition BASE64_PAD :: char where
  "BASE64_PAD = CHR ''=''"

definition b64_digit :: "nat \<Rightarrow> char" where
  "b64_digit v = table_b2a_base64 ! v"

definition table_a2b_base64 :: "char \<Rightarrow> nat option" where
  "table_a2b_base64 c =
     (if c = BASE64_PAD then Some 0 else map_of (zip table_b2a_base64 [0..<64]) c)"

fun b2a_groups :: "string \<Rightarrow> string" where
  "b2a_groups (a # b # c # rest) =
     [b64_digit (of_char a div 4),
      b64_digit ((of_char a mod 4) * 16 + of_char b div 16),
      b64_digit ((of_char b mod 16) * 4 + of_char c div 64),
      b64_digit (of_char c mod 64)] @ b2a_groups rest"
| "b2a_groups [a, b] =
     [b64_digit (of_char a div 4),
      b64_digit ((of_char a mod 4) * 16 + of_char b div 16),
      b64_digit ((of_char b mod 16) * 4),
      BASE64_PAD]"
| "b2a_groups [a] =
     [b64_digit (of_char a div 4),
      b64_digit ((of_char a mod 4) * 16),
      BASE64_PAD, BASE64_PAD]"
| "b2a_groups [] = []"

definition binascii_b2a_base64 :: "string \<Rightarrow> bool \<Rightarrow> string" where
  "binascii_b2a_base64 s newline = b2a_groups s @ (if newline then [CHR 0x0A] else [])"

fun binascii_find_valid :: "string \<Rightarrow> nat \<Rightarrow> char option" where
  "binascii_find_valid [] num = None"
| "binascii_find_valid (c # s) num =
     (if of_char c \<le> (127::nat) \<and> table_a2b_base64 c \<noteq> None
      then (if num = 0 then Some c else binascii_find_valid s (num - 1))
      else binascii_find_valid s num)"

fun a2b_loop :: "string \<Rightarrow> nat \<Rightarrow> nat \<Rightarrow> nat \<Rightarrow> exn + string" where
  "a2b_loop [] quad_pos leftchar leftbits =
     (if leftbits \<noteq> 0 then Inl BinasciiError else Inr [])"
| "a2b_loop (this_ch # rest) quad_pos leftchar leftbits =
     (if of_char this_ch > (127::nat) \<or> this_ch = CHR 0x0D \<or> this_ch = CHR 0x0A
         \<or> this_ch = CHR '' ''
      then a2b_loop rest quad_pos leftchar leftbits
      else if this_ch = BASE64_PAD
      then (if quad_pos < 2 \<or>
               (quad_pos = 2 \<and> binascii_find_valid (this_ch # rest) 1 \<noteq> Some BASE64_PAD)
            then a2b_loop rest quad_pos leftchar leftbits
            else Inr [])
      else (case table_a2b_base64 this_ch of
              None \<Rightarrow> a2b_loop rest quad_pos leftchar leftbits
            | Some v \<Rightarrow>
                (let quad_pos' = (quad_pos + 1) mod 4;
                     leftchar' = leftchar * 64 + v;
                     leftbits' = leftbits + 6
                 in if leftbits' \<ge> 8
                    then map_sum id ((#) (char_of (leftchar' div 2 ^ (leftbits' - 8))))
                           (a2b_loop rest quad_pos' (leftchar' mod 2 ^ (leftbits' - 8))
                              (leftbits' - 8))
                    else a2b_loop rest quad_pos' leftchar' leftbits')))"

definition binascii_a2b_base64 :: "string \<Rightarrow> exn + string" where
  "binascii_a2b_base64 s = a2b_loop s 0 0 0"

text \<open>
  \<^verbatim>\<open>base64.urlsafe_b64encode\<close> takes bytes only: it encodes without the newline and writes
  \<^verbatim>\<open>-\<close> and \<^verbatim>\<open>_\<close> for \<^verbatim>\<open>+\<close> and \<^verbatim>\<open>/\<close>. \<^verbatim>\<open>base64.urlsafe_b64decode\<close> takes bytes or
  ASCII text, translates back and decodes.
\<close>

definition base64_urlsafe_b64encode :: "pyval \<Rightarrow> exn + string" where
  "base64_urlsafe_b64encode s =
     (case s of
        Str _ \<Rightarrow> Inl TypeError
      | Bytes b \<Rightarrow>
          (let encoded = binascii_b2a_base64 b False
           in Inr (str_translate (CHR ''+'') (CHR ''/'') (CHR ''-'') (CHR ''_'') encoded)))"

definition base64_urlsafe_b64decode :: "pyval \<Rightarrow> exn + string" where
  "base64_urlsafe_b64decode s =
     (case (case s of
              Bytes b \<Rightarrow> Inr b
            | Str t \<Rightarrow> if \<exists>c \<in> set t. of_char c > (127::nat) then Inl ValueError else Inr t) of
        Inl e \<Rightarrow> Inl e
      | Inr b \<Rightarrow>
          binascii_a2b_base64 (str_translate (CHR ''-'') (CHR ''_'') (CHR ''+'') (CHR ''/'') b))"

subsection \<open>The module's encoding helpers\<close>

text \<open>
  \<^verbatim>\<open>_urlsafe_b64encode\<close> (line 260) strips the encoding, which is bytes, of the text
  \<^verbatim>\<open>'='\<close>. \<^verbatim>\<open>_urlsafe_b64decode\<close> (lines 265 to 267) encodes its argument to bytes and
  appends the text \<^verbatim>\<open>'=' * (4 - len(b64string) % 4)\<close> to them. \<^verbatim>\<open>_json_encode\<close> follows the
  collaborators below.
\<close>

definition urlsafe_b64encode_helper :: "pyval \<Rightarrow> exn + string" where
  "urlsafe_b64encode_helper raw_bytes =
     (case base64_urlsafe_b64encode raw_bytes of
        Inl e \<Rightarrow> Inl e
      | Inr encoded \<Rightarrow> bytes_rstrip encoded (Str ''=''))"

definition urlsafe_b64decode_helper :: "pyval \<Rightarrow> exn + string" where
  "urlsafe_b64decode_helper b64string =
     (case encode_ascii b64string of
        Inl e \<Rightarrow> Inl e
      | Inr b64string \<Rightarrow>
          (case bytes_add b64string (Str (replicate (4 - length b64string mod 4) (CHR ''=''))) of
             Inl e \<Rightarrow> Inl e
           | Inr padded \<Rightarrow> base64_urlsafe_b64decode (Bytes padded)))"

subsection \<open>Collaborators\<close>

text \<open>
  The calls that leave the module: \<^verbatim>\<open>simplejson.dumps\<close> (with the compact separators)
  and \<^verbatim>\<open>simplejson.loads\<close>; of pyOpenSSL, \<^verbatim>\<open>crypto.load_certificate\<close> and
  \<^verbatim>\<open>crypto.load_privatekey\<close> on PEM text, \<^verbatim>\<open>crypto.verify(key, signature, message,
  'sha256')\<close>, which returns nothing and raises on a mismatch, and \<^verbatim>\<open>crypto.sign\<close>; of
  PyCrypto, \<^verbatim>\<open>RSA.importKey\<close>,
  \<^verbatim>\<open>PKCS1_v1_5.new(key).verify(SHA256.new(message), signature)\<close> and
  \<^verbatim>\<open>PKCS1_v1_5.new(key).sign(SHA256.new(message))\<close>. Each may raise.
\<close>

record 'key collaborators =
  simplejson_dumps :: "json \<Rightarrow> exn + string"
  simplejson_loads :: "string \<Rightarrow> exn + json"
  crypto_load_certificate :: "string \<Rightarrow> exn + 'key"
  crypto_load_privatekey :: "string \<Rightarrow> exn + 'key"
  crypto_verify :: "'key \<Rightarrow> string \<Rightarrow> string \<Rightarrow> exn + unit"
  crypto_sign :: "'key \<Rightarrow> string \<Rightarrow> exn + string"
  RSA_importKey :: "string \<Rightarrow> exn + 'key"
  PKCS1_v1_5_verify :: "'key \<Rightarrow> string \<Rightarrow> string \<Rightarrow> exn + bool"
  PKCS1_v1_5_sign :: "'key \<Rightarrow> string \<Rightarrow> exn + string"

subsection \<open>Signers and verifiers\<close>

text \<open>
  An object of one of the four classes is its key. The module-level names
  \<^verbatim>\<open>Signer\<close> and \<^verbatim>\<open>Verifier\<close> are bound at import to the pyOpenSSL pair when that
  library is installed and to the PyCrypto pair otherwise: the \<open>backend\<close>.
\<close>

datatype 'key verifier = OpenSSLVerifier 'key | PyCryptoVerifier 'key

datatype 'key signer = OpenSSLSigner 'key | PyCryptoSigner 'key

datatype backend = OpenSSL | PyCrypto

definition OpenSSLVerifier_verify ::
  "'key collaborators \<Rightarrow> 'key \<Rightarrow> string \<Rightarrow> string \<Rightarrow> exn + bool" where
  "OpenSSLVerifier_verify lib pubkey message signature =
     (case crypto_verify lib pubkey signature message of
        Inr _ \<Rightarrow> Inr True
      | Inl _ \<Rightarrow> Inr False)"

definition OpenSSLVerifier_from_string ::
  "'key collaborators \<Rightarrow> string \<Rightarrow> bool \<Rightarrow> exn + 'key verifier" where
  "OpenSSLVerifier_from_string lib key_pem is_x509_cert =
     (case (if is_x509_cert then crypto_load_certificate lib key_pem
            else crypto_load_privatekey lib key_pem) of
        Inl e \<Rightarrow> Inl e
      | Inr pubkey \<Rightarrow> Inr (OpenSSLVerifier pubkey))"

definition OpenSSLSigner_sign ::
  "'key collaborators \<Rightarrow> 'key \<Rightarrow> string \<Rightarrow> exn + string" where
  "OpenSSLSigner_sign lib pkey message = crypto_sign lib pkey message"

definition PyCryptoVerifier_verify ::
  "'key collaborators \<Rightarrow> 'key \<Rightarrow> string \<Rightarrow> string \<Rightarrow> exn + bool" where
  "PyCryptoVerifier_verify lib pubkey message signature =
     (case PKCS1_v1_5_verify lib pubkey message signature of
        Inr b \<Rightarrow> Inr b
      | Inl _ \<Rightarrow> Inr False)"

definition PyCryptoVerifier_from_string ::
  "'key collaborators \<Rightarrow> string \<Rightarrow> bool \<Rightarrow> exn + 'key verifier" where
  "PyCryptoVerifier_from_string lib key_pem is_x509_cert =
     (if is_x509_cert then Inl NotImplementedError
      else (case RSA_importKey lib key_pem of
              Inl e \<Rightarrow> Inl e
            | Inr pubkey \<Rightarrow> Inr (PyCryptoVerifier pubkey)))"

definition PyCryptoSigner_sign ::
  "'key collaborators \<Rightarrow> 'key \<Rightarrow> string \<Rightarrow> exn + string" where
  "PyCryptoSigner_sign lib pkey message = PKCS1_v1_5_sign lib pkey message"

text \<open>Method calls on an object, and the static method of the class bound to
  \<^verbatim>\<open>Verifier\<close>.\<close>

fun verifier_verify ::
  "'key collaborators \<Rightarrow> 'key verifier \<Rightarrow> string \<Rightarrow> string \<Rightarrow> exn + bool" where
  "verifier_verify lib (OpenSSLVerifier pubkey) message signature =
     OpenSSLVerifier_verify lib pubkey message signature"
| "verifier_verify lib (PyCryptoVerifier pubkey) message signature =
     PyCryptoVerifier_verify lib pubkey message signature"

fun signer_sign :: "'key collaborators \<Rightarrow> 'key signer \<Rightarrow> string \<Rightarrow> exn + string" where
  "signer_sign lib (OpenSSLSigner pkey) message = OpenSSLSigner_sign lib pkey message"
| "signer_sign lib (PyCryptoSigner pkey) message = PyCryptoSigner_sign lib pkey message"

fun Verifier_from_string ::
  "'key collaborators \<Rightarrow> backend \<Rightarrow> string \<Rightarrow> bool \<Rightarrow> exn + 'key verifier" where
  "Verifier_from_string lib OpenSSL key_pem is_x509_cert =
     OpenSSLVerifier_from_string lib key_pem is_x509_cert"
| "Verifier_from_string lib PyCrypto key_pem is_x509_cert =
     PyCryptoVerifier_from_string lib key_pem is_x509_cert"

subsection \<open>Making a token\<close>

definition json_encode_helper :: "'key collaborators \<Rightarrow> json \<Rightarrow> exn + string" where
  "json_encode_helper lib data = simplejson_dumps lib data"

definition jwt_header :: json where
  "jwt_header = JObj [(''typ'', JStr ''JWT''), (''alg'', JStr ''RS256'')]"

text \<open>The serialiser returns text; the two segments and the signature would be bytes. The
  call of \<^verbatim>\<open>logger.debug\<close> changes nothing.\<close>

definition make_signed_jwt :: "'key collaborators \<Rightarrow> 'key signer \<Rightarrow> json \<Rightarrow> exn + string" where
  "make_signed_jwt lib signer payload =
     (let header = jwt_header in
      case json_encode_helper lib header of
        Inl e \<Rightarrow> Inl e
      | Inr header_json \<Rightarrow>
     (case urlsafe_b64encode_helper (Str header_json) of
        Inl e \<Rightarrow> Inl e
      | Inr segment0 \<Rightarrow>
     (case json_encode_helper lib payload of
        Inl e \<Rightarrow> Inl e
      | Inr payload_json \<Rightarrow>
     (case urlsafe_b64encode_helper (Str payload_json) of
        Inl e \<Rightarrow> Inl e
      | Inr segment1 \<Rightarrow>
     (let segments = [Bytes segment0, Bytes segment1] in
      case str_join ''.'' segments of
        Inl e \<Rightarrow> Inl e
      | Inr signing_input \<Rightarrow>
     (case signer_sign lib signer signing_input of
        Inl e \<Rightarrow> Inl e
      | Inr signature \<Rightarrow>
     (case urlsafe_b64encode_helper (Bytes signature) of
        Inl e \<Rightarrow> Inl e
      | Inr segment2 \<Rightarrow>
     (let segments = segments @ [Bytes segment2] in
      str_join ''.'' segments))))))))"

subsection \<open>Verifying a token\<close>

text \<open>
  \<^verbatim>\<open>verify_signed_jwt_with_certs\<close> runs four blocks in a row, each stopping the call when it
  raises: parsing (lines 319 to 333), the signature check over the items of \<^verbatim>\<open>certs\<close>
  (lines 336 to 343), the two timestamp checks (lines 346 to 364) and the audience check
  (lines 367 to 373). The token is text. \<open>clock\<close> is the time of the call in whole seconds,
  which line 351 would read; \<^verbatim>\<open>certs\<close> is the list \<^verbatim>\<open>certs.items()\<close>, in the order the
  dictionary yields it.
\<close>

definition parse_token :: "'key collaborators \<Rightarrow> string \<Rightarrow> exn + (string \<times> string \<times> json)" where
  "parse_token lib jwt =
     (let segments = str_split (CHR ''.'') jwt in
      if length segments \<noteq> 3 then Inl (AppIdentityError Wrong_number_of_segments)
      else
        let signed = (segments ! 0) @ ''.'' @ (segments ! 1) in
        case urlsafe_b64decode_helper (Str (segments ! 2)) of
          Inl e \<Rightarrow> Inl e
        | Inr signature \<Rightarrow>
       (case urlsafe_b64decode_helper (Str (segments ! 1)) of
          Inl e \<Rightarrow> Inl e
        | Inr json_body \<Rightarrow>
       (case simplejson_loads lib json_body of
          Inl e \<Rightarrow> Inl (AppIdentityError Cant_parse_token)
        | Inr parsed \<Rightarrow> Inr (signed, signature, parsed))))"

fun certs_loop ::
  "'key collaborators \<Rightarrow> backend \<Rightarrow> (string \<times> string) list \<Rightarrow> string \<Rightarrow> string \<Rightarrow> exn + bool" where
  "certs_loop lib Verifier [] signed signature = Inr False"
| "certs_loop lib Verifier ((keyname, pem) # rest) signed signature =
     (case Verifier_from_string lib Verifier pem True of
        Inl e \<Rightarrow> Inl e
      | Inr verifier \<Rightarrow>
          (case verifier_verify lib verifier signed signature of
             Inl e \<Rightarrow> Inl e
           | Inr ok \<Rightarrow> if ok then Inr True else certs_loop lib Verifier rest signed signature))"

definition check_signature ::
  "'key collaborators \<Rightarrow> backend \<Rightarrow> (string \<times> string) list \<Rightarrow> string \<Rightarrow> string \<Rightarrow> exn + unit" where
  "check_signature lib Verifier certs signed signature =
     (case certs_loop lib Verifier certs signed signature of
        Inl e \<Rightarrow> Inl e
      | Inr verified \<Rightarrow>
          if \<not> verified then Inl (AppIdentityError Invalid_token_signature) else Inr ())"

definition check_timestamps :: "float_arith \<Rightarrow> int \<Rightarrow> json \<Rightarrow> exn + unit" where
  "check_timestamps fp clock parsed =
     (case dict_get parsed ''iat'' of
        Inl e \<Rightarrow> Inl e
      | Inr iat \<Rightarrow>
      if iat = JNull then Inl (AppIdentityError No_iat_field)
      else
     (case py_sub fp iat CLOCK_SKEW_SECS of
        Inl e \<Rightarrow> Inl e
      | Inr earliest \<Rightarrow>
     (case lookup_long of
        Inl e \<Rightarrow> Inl e
      | Inr long \<Rightarrow>
     (let now = long clock in
      case dict_get parsed ''exp'' of
        Inl e \<Rightarrow> Inl e
      | Inr exp' \<Rightarrow>
      if exp' = JNull then Inl (AppIdentityError No_exp_field)
      else
     (case py_ge fp exp' (now + MAX_TOKEN_LIFETIME_SECS) of
        Inl e \<Rightarrow> Inl e
      | Inr too_far \<Rightarrow>
      if too_far then Inl (AppIdentityError Exp_field_too_far_in_future)
      else
     (case py_add fp exp' CLOCK_SKEW_SECS of
        Inl e \<Rightarrow> Inl e
      | Inr latest \<Rightarrow>
     (case py_lt fp now earliest of
        Inl e \<Rightarrow> Inl e
      | Inr too_early \<Rightarrow>
      if too_early then Inl (AppIdentityError Token_used_too_early)
      else
     (case py_gt fp now latest of
        Inl e \<Rightarrow> Inl e
      | Inr too_late \<Rightarrow>
      if too_late then Inl (AppIdentityError Token_used_too_late)
      else Inr ()))))))))"

definition check_audience :: "json \<Rightarrow> string option \<Rightarrow> exn + unit" where
  "check_audience parsed audience =
     (case audience of
        None \<Rightarrow> Inr ()
      | Some expected \<Rightarrow>
          (case dict_get parsed ''aud'' of
             Inl e \<Rightarrow> Inl e
           | Inr aud \<Rightarrow>
               if aud = JNull then Inl (AppIdentityError No_aud_field)
               else if aud \<noteq> JStr expected then Inl (AppIdentityError Wrong_recipient)
               else Inr ()))"

definition verify_signed_jwt_with_certs ::
  "'key collaborators \<Rightarrow> float_arith \<Rightarrow> backend \<Rightarrow> int \<Rightarrow> string \<Rightarrow> (string \<times> string) list
     \<Rightarrow> string option \<Rightarrow> exn + json" where
  "verify_signed_jwt_with_certs lib fp Verifier clock jwt certs audience =
     (case parse_token lib jwt of
        Inl e \<Rightarrow> Inl e
      | Inr (signed, signature, parsed) \<Rightarrow>
     (case check_signature lib Verifier certs signed signature of
        Inl e \<Rightarrow> Inl e
      | Inr _ \<Rightarrow>
     (case check_timestamps fp clock parsed of
        Inl e \<Rightarrow> Inl e
      | Inr _ \<Rightarrow>
     (case check_audience parsed audience of
        Inl e \<Rightarrow> Inl e
      | Inr _ \<Rightarrow> Inr parsed))))"

subsection \<open>The wire format of the specification\<close>

text \<open>
  What the claims call a token, in the words of the specification and independent of the
  code: \<open>base64url(JSON(header)) + "." + base64url(JSON(payload)) + "." +
  base64url(signature)\<close>, base64url being the encoding with \<^verbatim>\<open>-\<close> and \<^verbatim>\<open>_\<close> and without the
  \<^verbatim>\<open>=\<close> padding. \<open>b2a_nopad\<close> gives the digits of \<open>b2a_groups\<close> without the padding.
\<close>

definition spec_base64url :: "string \<Rightarrow> string" where
  "spec_base64url raw_bytes =
     str_rstrip ''='' (str_translate (CHR ''+'') (CHR ''/'') (CHR ''-'') (CHR ''_'') (b2a_groups raw_bytes))"

definition spec_compact_token :: "string \<Rightarrow> string \<Rightarrow> string \<Rightarrow> string" where
  "spec_compact_token header_json payload_json signature =
     spec_base64url header_json @ ''.'' @ spec_base64url payload_json @ ''.'' @
     spec_base64url signature"

fun b2a_nopad :: "string \<Rightarrow> string" where
  "b2a_nopad (a # b # c # rest) =
     [b64_digit (of_char a div 4),
      b64_digit ((of_char a mod 4) * 16 + of_char b div 16),
      b64_digit ((of_char b mod 16) * 4 + of_char c div 64),
      b64_digit (of_char c mod 64)] @ b2a_nopad rest"
| "b2a_nopad [a, b] =
     [b64_digit (of_char a div 4),
      b64_digit ((of_char a mod 4) * 16 + of_char b div 16),
      b64_digit ((of_char b mod 16) * 4)]"
| "b2a_nopad [a] =
     [b64_digit (of_char a div 4),
      b64_digit ((of_char a mod 4) * 16)]"
| "b2a_nopad [] = []"

subsection \<open>A small instance of the collaborators\<close>

text \<open>
  For evaluating the functions on concrete tokens: a serialiser that knows eight documents, PEM
  text that parses when it starts with \<^verbatim>\<open>-----BEGIN\<close> and a space, the rest being the key,
  a signature made of the key and the last two bytes of the message, and a floating point
  arithmetic that is never asked.
\<close>

definition example_documents :: "(string \<times> json) list" where
  \<open>example_documents =
     [(''{"typ":"JWT","alg":"RS256"}'', jwt_header),
      (''{"iat":1000,"exp":2000}'', JObj [(''iat'', JInt 1000), (''exp'', JInt 2000)]),
      (''{"iat":1000,"exp":400}'', JObj [(''iat'', JInt 1000), (''exp'', JInt 400)]),
      (''{"iat":1000,"exp":2000,"aud":"svc-x"}'',
         JObj [(''iat'', JInt 1000), (''exp'', JInt 2000), (''aud'', JStr ''svc-x'')]),
      (''{"iat":"x","exp":2000}'', JObj [(''iat'', JStr ''x''), (''exp'', JInt 2000)]),
      (''{"iat":1000,"exp":87401}'', JObj [(''iat'', JInt 1000), (''exp'', JInt 87401)]),
      (''{"exp":2000}'', JObj [(''exp'', JInt 2000)]),
      (''{"iat":1000}'', JObj [(''iat'', JInt 1000)])]\<close>

definition example_mac :: "string \<Rightarrow> string \<Rightarrow> string" where
  "example_mac key message = key @ take 2 (rev message)"

definition example_load :: "string \<Rightarrow> exn + string" where
  "example_load pem =
     (if take 11 pem = ''-----BEGIN '' then Inr (drop 11 pem) else Inl CryptoError)"

definition example_lib :: "string collaborators" where
  "example_lib =
     \<lparr> simplejson_dumps =
         (\<lambda>data. case map_of (map (\<lambda>(s, d). (d, s)) example_documents) data of
                   None \<Rightarrow> Inl TypeError | Some s \<Rightarrow> Inr s),
       simplejson_loads =
         (\<lambda>s. case map_of example_documents s of None \<Rightarrow> Inl ValueError | Some d \<Rightarrow> Inr d),
       crypto_load_certificate = example_load,
       crypto_load_privatekey = example_load,
       crypto_verify =
         (\<lambda>key signature message.
            if signature = example_mac key message then Inr () else Inl CryptoError),
       crypto_sign = (\<lambda>key message. Inr (example_mac key message)),
       RSA_importKey = example_load,
       PKCS1_v1_5_verify = (\<lambda>key message signature. Inr (signature = example_mac key message)),
       PKCS1_v1_5_sign = (\<lambda>key message. Inr (example_mac key message)) \<rparr>"

text \<open>Two certificates.\<close>

definition cert_a :: string where
  "cert_a = ''-----BEGIN A''"

definition cert_b :: string where
  "cert_b = ''-----BEGIN B''"

definition example_floats :: float_arith where
  "example_floats =
     \<lparr> float_sub = (\<lambda>x n. x), float_add = (\<lambda>x n. x), float_ge = (\<lambda>x n. False),
       float_lt = (\<lambda>n x. False), float_gt = (\<lambda>n x. False) \<rparr>"

text \<open>The payload \<^verbatim>\<open>{"iat":1000,"exp":2000}\<close>, its token under key \<open>A\<close> and its token
  under key \<open>B\<close>.\<close>

definition example_payload :: json where
  "example_payload = JObj [(''iat'', JInt 1000), (''exp'', JInt 2000)]"

definition example_jwt :: string where
  "example_jwt = ''eyJ0eXAiOiJKV1QiLCJhbGciOiJSUzI1NiJ9.eyJpYXQiOjEwMDAsImV4cCI6MjAwMH0.QTBI''"

definition example_jwt_b :: string where
  "example_jwt_b = ''eyJ0eXAiOiJKV1QiLCJhbGciOiJSUzI1NiJ9.eyJpYXQiOjEwMDAsImV4cCI6MjAwMH0.QjBI''"

text \<open>Tokens under key \<open>A\<close> of the payloads \<^verbatim>\<open>{"iat":1000,"exp":400}\<close>,
  \<^verbatim>\<open>{"iat":1000,"exp":2000,"aud":"svc-x"}\<close>, \<^verbatim>\<open>{"iat":1000,"exp":87401}\<close>,
  \<^verbatim>\<open>{"exp":2000}\<close> and \<^verbatim>\<open>{"iat":1000}\<close>.\<close>

definition example_jwt_backdated :: string where
  "example_jwt_backdated =
     ''eyJ0eXAiOiJKV1QiLCJhbGciOiJSUzI1NiJ9.eyJpYXQiOjEwMDAsImV4cCI6NDAwfQ.QVFm''"

definition example_jwt_aud :: string where
  "example_jwt_aud =
     ''eyJ0eXAiOiJKV1QiLCJhbGciOiJSUzI1NiJ9.eyJpYXQiOjEwMDAsImV4cCI6MjAwMCwiYXVkIjoic3ZjLXgifQ.QVFm''"

definition example_jwt_long :: string where
  "example_jwt_long =
     ''eyJ0eXAiOiJKV1QiLCJhbGciOiJSUzI1NiJ9.eyJpYXQiOjEwMDAsImV4cCI6ODc0MDF9.QTlG''"

definition example_jwt_no_iat :: string where
  "example_jwt_no_iat = ''eyJ0eXAiOiJKV1QiLCJhbGciOiJSUzI1NiJ9.eyJleHAiOjIwMDB9.QTlC''"

definition example_jwt_no_exp :: string where
  "example_jwt_no_exp = ''eyJ0eXAiOiJKV1QiLCJhbGciOiJSUzI1NiJ9.eyJpYXQiOjEwMDB9.QTlC''"

section \<open>The library codec\<close>

subsection \<open>Digits of the table\<close>

lemma table_distinct: "distinct table_b2a_base64"
  by (simp add: table_b2a_base64_def)

lemma table_length: "length table_b2a_base64 = 64"
  by (simp add: table_b2a_base64_def)

lemma b64_digit_in_table: "v < 64 \<Longrightarrow> b64_digit v \<in> set table_b2a_base64"
  by (simp add: b64_digit_def table_length)

lemma table_chars:
  "\<forall>c \<in> set table_b2a_base64.
     \<not> of_char c > (127::nat) \<and> c \<noteq> CHR 0x0D \<and> c \<noteq> CHR 0x0A \<and> c \<noteq> CHR '' ''
     \<and> c \<noteq> CHR ''='' \<and> c \<noteq> CHR ''-'' \<and> c \<noteq> CHR ''_'' \<and> c \<noteq> CHR ''.''"
  by (simp add: table_b2a_base64_def)

lemma table_a2b_digit:
  assumes "v < 64"
  shows "table_a2b_base64 (b64_digit v) = Some v"
proof -
  have "b64_digit v \<noteq> BASE64_PAD"
    using b64_digit_in_table [OF assms] table_chars by (auto simp: BASE64_PAD_def)
  moreover have "map_of (zip table_b2a_base64 [0..<64]) (table_b2a_base64 ! v) = Some ([0..<64] ! v)"
    using assms by (intro map_of_zip_nth) (simp_all add: table_length table_distinct)
  ultimately show ?thesis
    using assms by (simp add: table_a2b_base64_def b64_digit_def)
qed

lemma a2b_loop_digit:
  assumes "v < 64"
  shows "a2b_loop (b64_digit v # rest) quad_pos leftchar leftbits =
     (if leftbits + 6 \<ge> 8
      then map_sum id ((#) (char_of ((leftchar * 64 + v) div 2 ^ (leftbits + 6 - 8))))
             (a2b_loop rest ((quad_pos + 1) mod 4) ((leftchar * 64 + v) mod 2 ^ (leftbits + 6 - 8))
                (leftbits + 6 - 8))
      else a2b_loop rest ((quad_pos + 1) mod 4) (leftchar * 64 + v) (leftbits + 6))"
  using b64_digit_in_table [OF assms] table_chars table_a2b_digit [OF assms]
  by (auto simp: BASE64_PAD_def Let_def)

subsection \<open>Arithmetic of the six-bit groups\<close>

lemma sextet_bounds:
  fixes A B C :: nat
  assumes "A < 256" "B < 256" "C < 256"
  shows "A div 4 < 64" "(A mod 4) * 16 + B div 16 < 64" "(B mod 16) * 4 + C div 64 < 64"
    "(A mod 4) * 16 < 64" "(B mod 16) * 4 < 64"
proof -
  have a: "A mod 4 \<le> 3" "B mod 16 \<le> 15" by simp_all
  have b: "B div 16 < 16" "C div 64 < 4" using assms by simp_all
  show "A div 4 < 64" using assms by simp
  show "(A mod 4) * 16 + B div 16 < 64" using a b by linarith
  show "(B mod 16) * 4 + C div 64 < 64" using a b by linarith
  show "(A mod 4) * 16 < 64" using a by linarith
  show "(B mod 16) * 4 < 64" using a by linarith
qed

lemma join_quot_rem:
  fixes x :: nat
  assumes "x < c"
  shows "(a * c + x) div c = a" "(a * c + x) mod c = x"
  using assms by simp_all

lemma sextet_join1:
  fixes A x :: nat
  assumes "x < 16"
  shows "(A div 4 * 64 + (A mod 4 * 16 + x)) div 16 = A"
    "(A div 4 * 64 + (A mod 4 * 16 + x)) mod 16 = x"
proof -
  define q r where "q = A div 4" and "r = A mod 4"
  have A: "A = q * 4 + r"
    by (simp add: q_def r_def)
  have eq: "q * 64 + (r * 16 + x) = A * 16 + x"
    unfolding A by (simp add: algebra_simps)
  show "(A div 4 * 64 + (A mod 4 * 16 + x)) div 16 = A"
    unfolding q_def [symmetric] r_def [symmetric] eq using assms by (rule join_quot_rem)
  show "(A div 4 * 64 + (A mod 4 * 16 + x)) mod 16 = x"
    unfolding q_def [symmetric] r_def [symmetric] eq using assms by (rule join_quot_rem)
qed

lemma sextet_join2:
  fixes B x :: nat
  assumes "x < 4"
  shows "(B div 16 * 64 + (B mod 16 * 4 + x)) div 4 = B"
    "(B div 16 * 64 + (B mod 16 * 4 + x)) mod 4 = x"
proof -
  define q r where "q = B div 16" and "r = B mod 16"
  have B: "B = q * 16 + r"
    by (simp add: q_def r_def)
  have eq: "q * 64 + (r * 4 + x) = B * 4 + x"
    unfolding B by (simp add: algebra_simps)
  show "(B div 16 * 64 + (B mod 16 * 4 + x)) div 4 = B"
    unfolding q_def [symmetric] r_def [symmetric] eq using assms by (rule join_quot_rem)
  show "(B div 16 * 64 + (B mod 16 * 4 + x)) mod 4 = x"
    unfolding q_def [symmetric] r_def [symmetric] eq using assms by (rule join_quot_rem)
qed

subsection \<open>Decoding what the encoder wrote\<close>

lemma replicate_small:
  "replicate 2 x = [x, x]" "replicate 3 x = [x, x, x]" "replicate 4 x = [x, x, x, x]"
  by (simp_all add: numeral_eq_Suc)

lemmas quad_pos_simps = numeral_2_eq_2 [symmetric] numeral_3_eq_3 [symmetric]

lemma a2b_loop_block:
  fixes A B C :: nat
  assumes "A < 256" "B < 256" "C < 256"
  shows "a2b_loop (b64_digit (A div 4) # b64_digit ((A mod 4) * 16 + B div 16)
            # b64_digit ((B mod 16) * 4 + C div 64) # b64_digit (C mod 64) # rest) 0 0 0
         = map_sum id (\<lambda>r. char_of A # char_of B # char_of C # r) (a2b_loop rest 0 0 0)"
proof -
  note s = sextet_bounds [OF assms]
  have s4: "C mod 64 < 64" by simp
  have b: "B div 16 < 16" "C div 64 < 4" using assms by simp_all
  have e3: "C div 64 * 64 + C mod 64 = C" by simp
  have "a2b_loop (b64_digit (A div 4) # b64_digit ((A mod 4) * 16 + B div 16)
            # b64_digit ((B mod 16) * 4 + C div 64) # b64_digit (C mod 64) # rest) 0 0 0
       = a2b_loop (b64_digit ((A mod 4) * 16 + B div 16)
            # b64_digit ((B mod 16) * 4 + C div 64) # b64_digit (C mod 64) # rest) 1 (A div 4) 6"
    by (simp add: a2b_loop_digit [OF s(1)] quad_pos_simps del: a2b_loop.simps)
  also have "\<dots> = map_sum id ((#) (char_of A)) (a2b_loop (b64_digit ((B mod 16) * 4 + C div 64)
       # b64_digit (C mod 64) # rest) 2 (B div 16) 4)"
    by (simp add: a2b_loop_digit [OF s(2)] sextet_join1 [OF b(1)] quad_pos_simps
        del: a2b_loop.simps)
  also have "\<dots> = map_sum id ((#) (char_of A)) (map_sum id ((#) (char_of B))
       (a2b_loop (b64_digit (C mod 64) # rest) 3 (C div 64) 2))"
    by (simp add: a2b_loop_digit [OF s(3)] sextet_join2 [OF b(2)] quad_pos_simps
        del: a2b_loop.simps)
  also have "\<dots> = map_sum id ((#) (char_of A)) (map_sum id ((#) (char_of B))
       (map_sum id ((#) (char_of C)) (a2b_loop rest 0 0 0)))"
    by (simp add: a2b_loop_digit [OF s4] e3 quad_pos_simps del: a2b_loop.simps)
  also have "\<dots> = map_sum id (\<lambda>r. char_of A # char_of B # char_of C # r) (a2b_loop rest 0 0 0)"
    by (cases "a2b_loop rest 0 0 0") simp_all
  finally show ?thesis .
qed

lemma a2b_loop_tail0: "a2b_loop (replicate 4 (CHR ''='')) 0 0 0 = Inr []"
  by (simp add: BASE64_PAD_def replicate_small)

lemma find_valid_pad: "binascii_find_valid (CHR ''='' # CHR ''='' # rest) 1 = Some (CHR ''='')"
  by (simp add: table_a2b_base64_def BASE64_PAD_def)

lemma a2b_loop_pad2: "a2b_loop [CHR ''='', CHR ''=''] 2 lc lb = Inr []"
  using find_valid_pad [of "[]"] by (simp add: BASE64_PAD_def)

lemma a2b_loop_pad3: "a2b_loop [CHR ''=''] 3 lc lb = Inr []"
  by (simp add: BASE64_PAD_def)

lemma a2b_loop_tail1:
  fixes A :: nat
  assumes "A < 256"
  shows "a2b_loop [b64_digit (A div 4), b64_digit ((A mod 4) * 16), CHR ''='', CHR ''=''] 0 0 0
         = Inr [char_of A]"
proof -
  note s = sextet_bounds [OF assms assms assms]
  have e: "(A div 4 * 64 + A mod 4 * 16) div 16 = A"
    using sextet_join1 (1) [of 0 A] by simp
  show ?thesis
    by (simp add: a2b_loop_digit [OF s(1)] a2b_loop_digit [OF s(4)] e a2b_loop_pad2
        quad_pos_simps del: a2b_loop.simps)
qed

lemma a2b_loop_tail2:
  fixes A B :: nat
  assumes "A < 256" "B < 256"
  shows "a2b_loop [b64_digit (A div 4), b64_digit ((A mod 4) * 16 + B div 16),
            b64_digit ((B mod 16) * 4), CHR ''=''] 0 0 0
         = Inr [char_of A, char_of B]"
proof -
  note s = sextet_bounds [OF assms assms(2)]
  have b: "B div 16 < 16" using assms by simp
  have e: "(B div 16 * 64 + B mod 16 * 4) div 4 = B"
    using sextet_join2 (1) [of 0 B] by simp
  show ?thesis
    by (simp add: a2b_loop_digit [OF s(1)] a2b_loop_digit [OF s(2)] a2b_loop_digit [OF s(5)]
        sextet_join1 [OF b] e a2b_loop_pad3 quad_pos_simps del: a2b_loop.simps)
qed

lemma b2a_groups_nopad:
  "b2a_groups s = b2a_nopad s @ replicate ((3 - length s mod 3) mod 3) BASE64_PAD"
  by (induction s rule: b2a_nopad.induct) (simp_all add: replicate_small)

lemma b2a_nopad_in_table: "set (b2a_nopad s) \<subseteq> set table_b2a_base64"
proof (induction s rule: b2a_nopad.induct)
  case (1 a b c rest)
  note s = sextet_bounds [of "of_char a" "of_char b" "of_char c"]
  have "of_char c mod 64 < (64::nat)" by simp
  with 1 s show ?case by (simp add: b64_digit_in_table)
next
  case (2 a b)
  note s = sextet_bounds [of "of_char a" "of_char b" "of_char b"]
  then show ?case by (simp add: b64_digit_in_table)
next
  case (3 a)
  note s = sextet_bounds [of "of_char a" "of_char a" "of_char a"]
  then show ?case by (simp add: b64_digit_in_table)
next
  case 4
  show ?case by simp
qed

lemma a2b_loop_nopad:
  "a2b_loop (b2a_nopad s @ replicate (4 - length (b2a_nopad s) mod 4) (CHR ''='')) 0 0 0 = Inr s"
proof (induction s rule: b2a_nopad.induct)
  case (1 a b c rest)
  have len: "length (b2a_nopad (a # b # c # rest)) mod 4 = length (b2a_nopad rest) mod 4"
    by simp
  show ?case
    unfolding len using 1
    by (simp add: a2b_loop_block del: a2b_loop.simps replicate.simps)
next
  case (2 a b)
  show ?case
    using a2b_loop_tail2 [of "of_char a" "of_char b"]
    by (simp add: replicate_small del: a2b_loop.simps)
next
  case (3 a)
  show ?case
    using a2b_loop_tail1 [of "of_char a"]
    by (simp add: replicate_small del: a2b_loop.simps)
next
  case 4
  show ?case
    using a2b_loop_tail0 by (simp add: replicate_small del: a2b_loop.simps)
qed

subsection \<open>The encoding of the specification\<close>

lemma dropWhile_none:
  assumes "\<forall>x \<in> set ys. \<not> P x"
  shows "dropWhile P ys = ys"
  using assms by (cases ys) simp_all

lemma str_rstrip_append_replicate:
  assumes "c \<in> set chars" "\<forall>x \<in> set xs. x \<notin> set chars"
  shows "str_rstrip chars (xs @ replicate k c) = xs"
proof -
  have "dropWhile (\<lambda>c. c \<in> set chars) (replicate k c @ rev xs) = dropWhile (\<lambda>c. c \<in> set chars) (rev xs)"
    using assms(1) by (intro dropWhile_append2) simp
  moreover have "dropWhile (\<lambda>c. c \<in> set chars) (rev xs) = rev xs"
    using assms(2) by (intro dropWhile_none) simp
  ultimately show ?thesis
    by (simp add: str_rstrip_def)
qed

lemma spec_base64url_nopad:
  "spec_base64url raw_bytes =
     str_translate (CHR ''+'') (CHR ''/'') (CHR ''-'') (CHR ''_'') (b2a_nopad raw_bytes)"
proof -
  let ?t = "str_translate (CHR ''+'') (CHR ''/'') (CHR ''-'') (CHR ''_'')"
  let ?k = "(3 - length raw_bytes mod 3) mod 3"
  have "?t (b2a_groups raw_bytes) = ?t (b2a_nopad raw_bytes) @ replicate ?k (CHR ''='')"
    by (simp add: b2a_groups_nopad str_translate_def BASE64_PAD_def)
  moreover have "\<forall>x \<in> set (?t (b2a_nopad raw_bytes)). x \<notin> set ''=''"
    using b2a_nopad_in_table [of raw_bytes] table_chars
    by (auto simp: str_translate_def)
  ultimately show ?thesis
    by (simp add: spec_base64url_def str_rstrip_append_replicate)
qed

lemma to_urlsafe_char:
  assumes "c \<in> set table_b2a_base64"
  defines "d \<equiv> (if c = CHR ''+'' then CHR ''-'' else if c = CHR ''/'' then CHR ''_'' else c)"
  shows "\<not> of_char d > (127::nat)" "d \<noteq> CHR ''.''" "d \<noteq> CHR ''=''"
proof -
  have c: "\<not> of_char c > (127::nat)" "c \<noteq> CHR ''.''" "c \<noteq> CHR ''=''"
    using assms(1) table_chars by blast+
  show "\<not> of_char d > (127::nat)"
    using c(1) by (cases "c = CHR ''+''"; cases "c = CHR ''/''") (simp_all add: d_def)
  show "d \<noteq> CHR ''.''"
    using c(2) by (cases "c = CHR ''+''"; cases "c = CHR ''/''") (simp_all add: d_def)
  show "d \<noteq> CHR ''=''"
    using c(3) by (cases "c = CHR ''+''"; cases "c = CHR ''/''") (simp_all add: d_def)
qed

lemma spec_base64url_chars:
  assumes "c \<in> set (spec_base64url raw_bytes)"
  shows "\<not> of_char c > (127::nat)" "c \<noteq> CHR ''.''" "c \<noteq> CHR ''=''"
proof -
  have "c \<in> (\<lambda>x. if x = CHR ''+'' then CHR ''-'' else if x = CHR ''/'' then CHR ''_'' else x)
              ` set (b2a_nopad raw_bytes)"
    using assms by (simp add: spec_base64url_nopad str_translate_def)
  then obtain x where "x \<in> set (b2a_nopad raw_bytes)"
    and c: "c = (if x = CHR ''+'' then CHR ''-'' else if x = CHR ''/'' then CHR ''_'' else x)"
    by (rule imageE)
  then have x: "x \<in> set table_b2a_base64"
    using b2a_nopad_in_table [of raw_bytes] by blast
  show "\<not> of_char c > (127::nat)" "c \<noteq> CHR ''.''" "c \<noteq> CHR ''=''"
    unfolding c using to_urlsafe_char [OF x] by blast+
qed

lemma str_translate_back:
  "str_translate (CHR ''-'') (CHR ''_'') (CHR ''+'') (CHR ''/'')
     (str_translate (CHR ''+'') (CHR ''/'') (CHR ''-'') (CHR ''_'') (b2a_nopad s)) = b2a_nopad s"
proof -
  have "(if (if c = CHR ''+'' then CHR ''-'' else if c = CHR ''/'' then CHR ''_'' else c) = CHR ''-''
         then CHR ''+''
         else if (if c = CHR ''+'' then CHR ''-'' else if c = CHR ''/'' then CHR ''_'' else c) = CHR ''_''
         then CHR ''/''
         else (if c = CHR ''+'' then CHR ''-'' else if c = CHR ''/'' then CHR ''_'' else c)) = c"
    if "c \<in> set (b2a_nopad s)" for c
  proof -
    have "c \<noteq> CHR ''-''" "c \<noteq> CHR ''_''"
      using that b2a_nopad_in_table [of s] table_chars by blast+
    then show ?thesis
      by (cases "c = CHR ''+''"; cases "c = CHR ''/''") simp_all
  qed
  then show ?thesis
    unfolding str_translate_def map_map by (intro map_idI) simp
qed

lemma library_decodes_padded:
  "base64_urlsafe_b64decode
     (Bytes (spec_base64url raw_bytes
               @ replicate (4 - length (spec_base64url raw_bytes) mod 4) (CHR ''=''))) = Inr raw_bytes"
proof -
  let ?t = "str_translate (CHR ''+'') (CHR ''/'') (CHR ''-'') (CHR ''_'')"
  let ?u = "str_translate (CHR ''-'') (CHR ''_'') (CHR ''+'') (CHR ''/'')"
  let ?n = "b2a_nopad raw_bytes"
  have len: "length (?t ?n) = length ?n"
    by (simp add: str_translate_def)
  have "?u (xs @ replicate k (CHR ''='')) = ?u xs @ replicate k (CHR ''='')" for xs k
    by (simp add: str_translate_def)
  then have "?u (?t ?n @ replicate (4 - length (?t ?n) mod 4) (CHR ''=''))
      = ?u (?t ?n) @ replicate (4 - length ?n mod 4) (CHR ''='')"
    unfolding len by blast
  then have "?u (?t ?n @ replicate (4 - length (?t ?n) mod 4) (CHR ''=''))
      = ?n @ replicate (4 - length ?n mod 4) (CHR ''='')"
    by (simp only: str_translate_back)
  then show ?thesis
    by (simp only: base64_urlsafe_b64decode_def binascii_a2b_base64_def
        spec_base64url_nopad a2b_loop_nopad sum.case pyval.case)
qed

section \<open>What the module does\<close>

lemma urlsafe_b64encode_helper_raises: "urlsafe_b64encode_helper raw_bytes = Inl TypeError"
  by (cases raw_bytes)
    (simp_all add: urlsafe_b64encode_helper_def base64_urlsafe_b64encode_def bytes_rstrip_def)

lemma urlsafe_b64decode_helper_raises:
  "urlsafe_b64decode_helper (Str s)
     = (if \<exists>c \<in> set s. of_char c > (127::nat) then Inl UnicodeEncodeError else Inl TypeError)"
  "urlsafe_b64decode_helper (Bytes b) = Inl AttributeError"
  by (simp_all add: urlsafe_b64decode_helper_def encode_ascii_def bytes_add_def)

lemma make_signed_jwt_raises:
  "make_signed_jwt lib signer payload
     = (case simplejson_dumps lib jwt_header of Inl e \<Rightarrow> Inl e | Inr header_json \<Rightarrow> Inl TypeError)"
  by (simp add: make_signed_jwt_def json_encode_helper_def urlsafe_b64encode_helper_raises
      split: sum.splits)

lemma parse_token_raises:
  "parse_token lib jwt
     = (if length (str_split (CHR ''.'') jwt) \<noteq> 3
        then Inl (AppIdentityError Wrong_number_of_segments)
        else if \<exists>c \<in> set (str_split (CHR ''.'') jwt ! 2). of_char c > (127::nat)
        then Inl UnicodeEncodeError
        else Inl TypeError)"
  by (simp add: parse_token_def urlsafe_b64decode_helper_raises)

lemma verify_raises:
  "verify_signed_jwt_with_certs lib fp Verifier clock jwt certs audience
     = (if length (str_split (CHR ''.'') jwt) \<noteq> 3
        then Inl (AppIdentityError Wrong_number_of_segments)
        else if \<exists>c \<in> set (str_split (CHR ''.'') jwt ! 2). of_char c > (127::nat)
        then Inl UnicodeEncodeError
        else Inl TypeError)"
  by (simp add: verify_signed_jwt_with_certs_def parse_token_raises)

lemma check_timestamps_raises:
  "check_timestamps fp clock parsed = Inl AttributeError \<or>
   check_timestamps fp clock parsed = Inl (AppIdentityError No_iat_field) \<or>
   check_timestamps fp clock parsed = Inl TypeError \<or>
   check_timestamps fp clock parsed = Inl NameError"
proof (cases "dict_get parsed ''iat''")
  case (Inl e)
  then have "e = AttributeError"
    by (cases parsed) simp_all
  with Inl show ?thesis
    by (simp add: check_timestamps_def)
next
  case (Inr iat)
  show ?thesis
  proof (cases "iat = JNull")
    case True
    with Inr show ?thesis
      by (simp add: check_timestamps_def)
  next
    case False
    with Inr show ?thesis
      by (cases iat) (simp_all add: check_timestamps_def lookup_long_def)
  qed
qed

lemma check_timestamps_number:
  assumes "dict_get parsed ''iat'' = Inr (JInt iat)"
  shows "check_timestamps fp clock parsed = Inl NameError"
  using assms by (simp add: check_timestamps_def lookup_long_def)

lemma str_split_no_sep:
  assumes "sep \<notin> set a"
  shows "str_split sep a = [a]"
  using assms by (induction a) auto

lemma str_split_append:
  assumes "sep \<notin> set a"
  shows "str_split sep (a @ sep # rest) = a # str_split sep rest"
  using assms by (induction a) auto

lemma str_split_three:
  assumes "sep \<notin> set a" "sep \<notin> set b" "sep \<notin> set c"
  shows "str_split sep (a @ [sep] @ b @ [sep] @ c) = [a, b, c]"
  using assms by (simp add: str_split_append str_split_no_sep)

lemma spec_compact_token_segments:
  "str_split (CHR ''.'') (spec_compact_token header_json payload_json signature)
     = [spec_base64url header_json, spec_base64url payload_json, spec_base64url signature]"
proof -
  have "CHR ''.'' \<notin> set (spec_base64url raw_bytes)" for raw_bytes
    using spec_base64url_chars (2) [of _ raw_bytes] by blast
  then show ?thesis
    unfolding spec_compact_token_def by (intro str_split_three)
qed

lemma verify_spec_token:
  "verify_signed_jwt_with_certs lib fp Verifier clock
     (spec_compact_token header_json payload_json signature) certs audience = Inl TypeError"
proof -
  have "\<not> (\<exists>c \<in> set (spec_base64url signature). of_char c > (127::nat))"
    using spec_base64url_chars (1) [of _ signature] by blast
  then show ?thesis
    by (simp add: verify_raises spec_compact_token_segments)
qed

lemma verify_never_message:
  assumes "m \<noteq> Wrong_number_of_segments"
  shows "verify_signed_jwt_with_certs lib fp Verifier clock jwt certs audience
     \<noteq> Inl (AppIdentityError m)"
  using assms by (simp add: verify_raises)

lemma verify_never_returns:
  "verify_signed_jwt_with_certs lib fp Verifier clock jwt certs audience \<noteq> Inr parsed"
  by (simp add: verify_raises)

lemma check_timestamps_never:
  "check_timestamps fp clock parsed \<noteq> Inr ()"
  "check_timestamps fp clock parsed \<noteq> Inl (AppIdentityError No_exp_field)"
  "check_timestamps fp clock parsed \<noteq> Inl (AppIdentityError Exp_field_too_far_in_future)"
  using check_timestamps_raises [of fp clock parsed] by auto

section \<open>The example tokens\<close>

lemma example_tokens:
  \<open>example_jwt = spec_compact_token ''{"typ":"JWT","alg":"RS256"}'' ''{"iat":1000,"exp":2000}'' ''A0H''\<close>
  \<open>example_jwt_b = spec_compact_token ''{"typ":"JWT","alg":"RS256"}'' ''{"iat":1000,"exp":2000}'' ''B0H''\<close>
  \<open>example_jwt_backdated
     = spec_compact_token ''{"typ":"JWT","alg":"RS256"}'' ''{"iat":1000,"exp":400}'' ''AQf''\<close>
  \<open>example_jwt_aud
     = spec_compact_token ''{"typ":"JWT","alg":"RS256"}'' ''{"iat":1000,"exp":2000,"aud":"svc-x"}'' ''AQf''\<close>
  \<open>example_jwt_long
     = spec_compact_token ''{"typ":"JWT","alg":"RS256"}'' ''{"iat":1000,"exp":87401}'' ''A9F''\<close>
  \<open>example_jwt_no_iat = spec_compact_token ''{"typ":"JWT","alg":"RS256"}'' ''{"exp":2000}'' ''A9B''\<close>
  \<open>example_jwt_no_exp = spec_compact_token ''{"typ":"JWT","alg":"RS256"}'' ''{"iat":1000}'' ''A9B''\<close>
  by code_simp+

lemma example_signatures:
  \<open>crypto_sign example_lib ''A''
     (spec_base64url ''{"typ":"JWT","alg":"RS256"}'' @ ''.'' @ spec_base64url ''{"iat":1000,"exp":2000}'')
   = Inr ''A0H''\<close>
  \<open>crypto_sign example_lib ''B''
     (spec_base64url ''{"typ":"JWT","alg":"RS256"}'' @ ''.'' @ spec_base64url ''{"iat":1000,"exp":2000}'')
   = Inr ''B0H''\<close>
  by code_simp+

section \<open>Claims\<close>

text \<open>
  C1. The round trip does not happen. \<^verbatim>\<open>make_signed_jwt\<close> returns a token for no payload
  and no signer: once the serialiser has written the header, \<^verbatim>\<open>_urlsafe_b64encode\<close> is
  given text and raises \<^verbatim>\<open>TypeError\<close>. And \<^verbatim>\<open>verify_signed_jwt_with_certs\<close>, given the token
  that the specification describes for a header, a payload and a signature, with the
  certificates \<open>{kid: pubkeyPem}\<close> and no audience, raises \<^verbatim>\<open>TypeError\<close> at any clock
  reading, whatever the claims in the payload and whatever the keys.
\<close>

theorem C1_no_roundtrip:
  "make_signed_jwt lib signer payload \<noteq> Inr jwt \<and>
   (simplejson_dumps lib jwt_header = Inr header_json \<longrightarrow>
      make_signed_jwt lib signer payload = Inl TypeError) \<and>
   verify_signed_jwt_with_certs lib fp Verifier now
     (spec_compact_token header_json payload_json signature) [(kid, pubkeyPem)] None
     = Inl TypeError"
proof -
  have "make_signed_jwt lib signer payload \<noteq> Inr jwt"
    by (simp add: make_signed_jwt_raises split: sum.splits)
  moreover have "make_signed_jwt lib signer payload = Inl TypeError"
    if "simplejson_dumps lib jwt_header = Inr header_json"
    using that by (simp add: make_signed_jwt_raises)
  ultimately show ?thesis
    using verify_spec_token [of lib fp Verifier now header_json payload_json signature
        "[(kid, pubkeyPem)]" None]
    by blast
qed

theorem C1_no_roundtrip_witness:
  \<open>simplejson_dumps example_lib jwt_header = Inr ''{"typ":"JWT","alg":"RS256"}'' \<and>
   simplejson_loads example_lib ''{"iat":1000,"exp":2000}'' = Inr example_payload \<and>
   make_signed_jwt example_lib (OpenSSLSigner ''A'') example_payload = Inl TypeError \<and>
   example_jwt
     = spec_compact_token ''{"typ":"JWT","alg":"RS256"}'' ''{"iat":1000,"exp":2000}'' ''A0H'' \<and>
   verify_signed_jwt_with_certs example_lib example_floats OpenSSL 1000 example_jwt
     [(''a'', cert_a)] None = Inl TypeError\<close>
proof -
  have header: \<open>simplejson_dumps example_lib jwt_header = Inr ''{"typ":"JWT","alg":"RS256"}''\<close>
    by code_simp
  have loads: \<open>simplejson_loads example_lib ''{"iat":1000,"exp":2000}'' = Inr example_payload\<close>
    by code_simp
  note made = C1_no_roundtrip [where lib = example_lib and signer = "OpenSSLSigner ''A''"
      and payload = example_payload and fp = example_floats and Verifier = OpenSSL
      and now = 1000 and kid = "''a''" and pubkeyPem = cert_a
      and header_json = \<open>''{"typ":"JWT","alg":"RS256"}''\<close>
      and payload_json = \<open>''{"iat":1000,"exp":2000}''\<close> and signature = "''A0H''", folded example_tokens(1)]
  show ?thesis
    using made header loads example_tokens(1) by simp
qed

text \<open>
  C2. The signature check is never reached. A token of exactly three segments leaves
  \<^verbatim>\<open>verify_signed_jwt_with_certs\<close> at line 326, where \<^verbatim>\<open>_urlsafe_b64decode\<close> raises
  \<^verbatim>\<open>UnicodeEncodeError\<close> when the third segment has a character that is not ASCII and
  \<^verbatim>\<open>TypeError\<close> otherwise, for every set of certificates. So no call ends in "Invalid token
  signature", with no certificate or with certificates that do not match, and none succeeds
  because a certificate matches.
\<close>

theorem C2_signature_check_unreached:
  "(str_split (CHR ''.'') jwt = [header_segment, payload_segment, signature_segment] \<longrightarrow>
      verify_signed_jwt_with_certs lib fp Verifier now jwt certs audience
        = (if \<exists>c \<in> set signature_segment. of_char c > (127::nat) then Inl UnicodeEncodeError
           else Inl TypeError)) \<and>
   verify_signed_jwt_with_certs lib fp Verifier now jwt certs audience
     \<noteq> Inl (AppIdentityError Invalid_token_signature)"
  by (simp add: verify_raises)

theorem C2_signature_check_unreached_witness:
  "str_split (CHR ''.'') example_jwt_b
     = [''eyJ0eXAiOiJKV1QiLCJhbGciOiJSUzI1NiJ9'', ''eyJpYXQiOjEwMDAsImV4cCI6MjAwMH0'', ''QjBI''] \<and>
   verify_signed_jwt_with_certs example_lib example_floats OpenSSL 1000 example_jwt_b
     [] None = Inl TypeError \<and>
   verify_signed_jwt_with_certs example_lib example_floats OpenSSL 1000 example_jwt_b
     [(''a'', cert_a)] None = Inl TypeError \<and>
   verify_signed_jwt_with_certs example_lib example_floats OpenSSL 1000 example_jwt_b
     [(''a'', cert_a), (''b'', cert_b)] None = Inl TypeError"
proof -
  have segs: "str_split (CHR ''.'') example_jwt_b
     = [''eyJ0eXAiOiJKV1QiLCJhbGciOiJSUzI1NiJ9'', ''eyJpYXQiOjEwMDAsImV4cCI6MjAwMH0'', ''QjBI'']"
    by (simp add: example_jwt_b_def)
  have ascii: "\<not> (\<exists>c \<in> set ''QjBI''. of_char c > (127::nat))"
    by simp
  show ?thesis
    using C2_signature_check_unreached [where jwt = example_jwt_b and lib = example_lib
        and fp = example_floats and Verifier = OpenSSL and now = 1000 and certs = "[]"
        and audience = None and signature_segment = "''QjBI''"]
      C2_signature_check_unreached [where jwt = example_jwt_b and lib = example_lib
        and fp = example_floats and Verifier = OpenSSL and now = 1000
        and certs = "[(''a'', cert_a)]" and audience = None and signature_segment = "''QjBI''"]
      C2_signature_check_unreached [where jwt = example_jwt_b and lib = example_lib
        and fp = example_floats and Verifier = OpenSSL and now = 1000
        and certs = "[(''a'', cert_a), (''b'', cert_b)]" and audience = None and signature_segment = "''QjBI''"]
      segs ascii
    by simp
qed

text \<open>
  C3. The window check is never reached and could not pass. For the token that the
  specification describes, whatever its \<^verbatim>\<open>iat\<close> and \<^verbatim>\<open>exp\<close> and at every clock reading,
  \<^verbatim>\<open>verify_signed_jwt_with_certs\<close> raises \<^verbatim>\<open>TypeError\<close>; no call ends in "Token used too
  early" or "Token used too late"; and the timestamp block by itself, on a payload with an
  integer \<^verbatim>\<open>iat\<close>, raises \<^verbatim>\<open>NameError\<close> at line 351.
\<close>

theorem C3_window_unreached:
  "verify_signed_jwt_with_certs lib fp Verifier now
     (spec_compact_token header_json payload_json signature) certs audience = Inl TypeError \<and>
   verify_signed_jwt_with_certs lib fp Verifier now jwt certs audience
     \<noteq> Inl (AppIdentityError Token_used_too_early) \<and>
   verify_signed_jwt_with_certs lib fp Verifier now jwt certs audience
     \<noteq> Inl (AppIdentityError Token_used_too_late) \<and>
   (dict_get parsed ''iat'' = Inr (JInt iat) \<longrightarrow>
      check_timestamps fp now parsed = Inl NameError)"
  using verify_spec_token [of lib fp Verifier now header_json payload_json signature certs audience]
    verify_never_message [of Token_used_too_early lib fp Verifier now jwt certs audience]
    verify_never_message [of Token_used_too_late lib fp Verifier now jwt certs audience]
  by (simp add: check_timestamps_number)

theorem C3_window_unreached_witness:
  "verify_signed_jwt_with_certs example_lib example_floats OpenSSL 699 example_jwt
     [(''a'', cert_a)] None = Inl TypeError \<and>
   verify_signed_jwt_with_certs example_lib example_floats OpenSSL 700 example_jwt
     [(''a'', cert_a)] None = Inl TypeError \<and>
   verify_signed_jwt_with_certs example_lib example_floats OpenSSL 2300 example_jwt
     [(''a'', cert_a)] None = Inl TypeError \<and>
   verify_signed_jwt_with_certs example_lib example_floats OpenSSL 2301 example_jwt
     [(''a'', cert_a)] None = Inl TypeError \<and>
   dict_get example_payload ''iat'' = Inr (JInt 1000) \<and>
   check_timestamps example_floats 700 example_payload = Inl NameError"
proof -
  have iat: "dict_get example_payload ''iat'' = Inr (JInt 1000)"
    by (simp add: example_payload_def)
  note at = C3_window_unreached [where lib = example_lib and fp = example_floats
      and Verifier = OpenSSL and certs = "[(''a'', cert_a)]" and audience = None
      and parsed = example_payload and iat = 1000
      and header_json = \<open>''{"typ":"JWT","alg":"RS256"}''\<close>
      and payload_json = \<open>''{"iat":1000,"exp":2000}''\<close> and signature = "''A0H''", folded example_tokens(1)]
  show ?thesis
    using at [where now = 699] at [where now = 700] at [where now = 2300] at [where now = 2301]
      iat by simp
qed

text \<open>
  C4. The lifetime cap is never applied. No call of \<^verbatim>\<open>verify_signed_jwt_with_certs\<close> and no
  run of the timestamp block ends in "exp field too far in future": the token that the
  specification describes makes the call raise \<^verbatim>\<open>TypeError\<close>, whatever its \<^verbatim>\<open>exp\<close>, and the
  block raises at line 351 or before, ahead of the comparison at line 354.
\<close>

theorem C4_lifetime_cap_unreached:
  "verify_signed_jwt_with_certs lib fp Verifier now
     (spec_compact_token header_json payload_json signature) certs audience = Inl TypeError \<and>
   verify_signed_jwt_with_certs lib fp Verifier now jwt certs audience
     \<noteq> Inl (AppIdentityError Exp_field_too_far_in_future) \<and>
   check_timestamps fp now parsed \<noteq> Inl (AppIdentityError Exp_field_too_far_in_future)"
  using verify_spec_token [of lib fp Verifier now header_json payload_json signature certs audience]
    verify_never_message [of Exp_field_too_far_in_future lib fp Verifier now jwt certs audience]
    check_timestamps_never (3) [of fp now parsed]
  by simp

theorem C4_lifetime_cap_unreached_witness:
  "(87401::int) = 1000 + 86401 \<and>
   verify_signed_jwt_with_certs example_lib example_floats OpenSSL 1000 example_jwt_long
     [(''a'', cert_a)] None = Inl TypeError \<and>
   check_timestamps example_floats 1000 (JObj [(''iat'', JInt 1000), (''exp'', JInt 87401)])
     = Inl NameError"
proof -
  have block: "check_timestamps example_floats 1000
      (JObj [(''iat'', JInt 1000), (''exp'', JInt 87401)]) = Inl NameError"
    by (simp add: check_timestamps_number)
  show ?thesis
    using C4_lifetime_cap_unreached [where lib = example_lib and fp = example_floats
        and Verifier = OpenSSL and now = 1000 and certs = "[(''a'', cert_a)]" and audience = None
      and header_json = \<open>''{"typ":"JWT","alg":"RS256"}''\<close>
      and payload_json = \<open>''{"iat":1000,"exp":87401}''\<close> and signature = "''A9F''",
        folded example_tokens(5)] block
    by simp
qed

text \<open>
  C5. A token that does not split into exactly three segments is rejected with "Wrong number
  of segments". A token of three segments is not: whatever its characters, and whether or not
  its payload is JSON, the call ends in the \<^verbatim>\<open>TypeError\<close> or \<^verbatim>\<open>UnicodeEncodeError\<close> of
  \<^verbatim>\<open>_urlsafe_b64decode\<close>, which nothing catches, and never in "Can't parse token".
\<close>

theorem C5_decoding_error_escapes:
  "(length (str_split (CHR ''.'') jwt) \<noteq> 3 \<longrightarrow>
      verify_signed_jwt_with_certs lib fp Verifier now jwt certs audience
        = Inl (AppIdentityError Wrong_number_of_segments)) \<and>
   (length (str_split (CHR ''.'') jwt) = 3 \<longrightarrow>
      verify_signed_jwt_with_certs lib fp Verifier now jwt certs audience = Inl TypeError \<or>
      verify_signed_jwt_with_certs lib fp Verifier now jwt certs audience = Inl UnicodeEncodeError) \<and>
   verify_signed_jwt_with_certs lib fp Verifier now jwt certs audience
     \<noteq> Inl (AppIdentityError Cant_parse_token)"
  by (simp add: verify_raises)

theorem C5_decoding_error_escapes_witness:
  "verify_signed_jwt_with_certs example_lib example_floats OpenSSL 1000 ''a.b''
     [(''a'', cert_a)] None = Inl (AppIdentityError Wrong_number_of_segments) \<and>
   verify_signed_jwt_with_certs example_lib example_floats OpenSSL 1000 ''x.y.c!''
     [(''a'', cert_a)] None = Inl TypeError \<and>
   verify_signed_jwt_with_certs example_lib example_floats OpenSSL 1000 [CHR ''x'', CHR ''.'', CHR ''y'', CHR ''.'', CHR 0xE9]
     [(''a'', cert_a)] None = Inl UnicodeEncodeError \<and>
   spec_base64url ''not json'' = ''bm90IGpzb24'' \<and>
   verify_signed_jwt_with_certs example_lib example_floats OpenSSL 1000 ''a.bm90IGpzb24.QTBI''
     [(''a'', cert_a)] None = Inl TypeError"
proof -
  have enc: "spec_base64url ''not json'' = ''bm90IGpzb24''"
    by code_simp
  have runs:
    "verify_signed_jwt_with_certs example_lib example_floats OpenSSL 1000 ''x.y.c!''
       [(''a'', cert_a)] None = Inl TypeError"
    "verify_signed_jwt_with_certs example_lib example_floats OpenSSL 1000 [CHR ''x'', CHR ''.'', CHR ''y'', CHR ''.'', CHR 0xE9]
       [(''a'', cert_a)] None = Inl UnicodeEncodeError"
    "verify_signed_jwt_with_certs example_lib example_floats OpenSSL 1000 ''a.bm90IGpzb24.QTBI''
       [(''a'', cert_a)] None = Inl TypeError"
    by code_simp+
  have short: "length (str_split (CHR ''.'') ''a.b'') \<noteq> 3"
    by simp
  show ?thesis
    using C5_decoding_error_escapes [where jwt = "''a.b''" and lib = example_lib
        and fp = example_floats and Verifier = OpenSSL and now = 1000
        and certs = "[(''a'', cert_a)]" and audience = None] short enc runs
    by simp
qed

text \<open>
  C6. The checks for \<^verbatim>\<open>iat\<close> and \<^verbatim>\<open>exp\<close> are never reached from a token. The token that the
  specification describes makes the call raise \<^verbatim>\<open>TypeError\<close>, whatever claims its payload
  has or lacks, and no call ends in "No iat field" or "No exp field". The timestamp block by
  itself raises "No iat field" when \<^verbatim>\<open>parsed.get('iat')\<close> is \<^verbatim>\<open>None\<close>, and never "No exp
  field".
\<close>

theorem C6_presence_checks_unreached:
  "verify_signed_jwt_with_certs lib fp Verifier now
     (spec_compact_token header_json payload_json signature) certs audience = Inl TypeError \<and>
   verify_signed_jwt_with_certs lib fp Verifier now jwt certs audience
     \<noteq> Inl (AppIdentityError No_iat_field) \<and>
   verify_signed_jwt_with_certs lib fp Verifier now jwt certs audience
     \<noteq> Inl (AppIdentityError No_exp_field) \<and>
   (dict_get parsed ''iat'' = Inr JNull \<longrightarrow>
      check_timestamps fp now parsed = Inl (AppIdentityError No_iat_field)) \<and>
   check_timestamps fp now parsed \<noteq> Inl (AppIdentityError No_exp_field)"
proof -
  have "check_timestamps fp now parsed = Inl (AppIdentityError No_iat_field)"
    if "dict_get parsed ''iat'' = Inr JNull"
    using that by (simp add: check_timestamps_def)
  then show ?thesis
    using verify_spec_token [of lib fp Verifier now header_json payload_json signature certs audience]
      verify_never_message [of No_iat_field lib fp Verifier now jwt certs audience]
      verify_never_message [of No_exp_field lib fp Verifier now jwt certs audience]
      check_timestamps_never (2) [of fp now parsed]
    by simp
qed

theorem C6_presence_checks_unreached_witness:
  "verify_signed_jwt_with_certs example_lib example_floats OpenSSL 1000 example_jwt_no_iat
     [(''a'', cert_a)] None = Inl TypeError \<and>
   verify_signed_jwt_with_certs example_lib example_floats OpenSSL 1000 example_jwt_no_exp
     [(''a'', cert_a)] None = Inl TypeError \<and>
   check_timestamps example_floats 1000 (JObj [(''exp'', JInt 2000)])
     = Inl (AppIdentityError No_iat_field) \<and>
   check_timestamps example_floats 1000 (JObj [(''iat'', JInt 1000)]) = Inl NameError"
proof -
  have absent: "dict_get (JObj [(''exp'', JInt 2000)]) ''iat'' = Inr JNull"
    by simp
  have block: "check_timestamps example_floats 1000 (JObj [(''iat'', JInt 1000)]) = Inl NameError"
    by (simp add: check_timestamps_number)
  show ?thesis
    using C6_presence_checks_unreached [where lib = example_lib and fp = example_floats
        and Verifier = OpenSSL and now = 1000 and certs = "[(''a'', cert_a)]" and audience = None
        and parsed = "JObj [(''exp'', JInt 2000)]"
      and header_json = \<open>''{"typ":"JWT","alg":"RS256"}''\<close>
      and payload_json = \<open>''{"exp":2000}''\<close> and signature = "''A9B''", folded example_tokens(6)]
      C6_presence_checks_unreached [where lib = example_lib and fp = example_floats
        and Verifier = OpenSSL and now = 1000 and certs = "[(''a'', cert_a)]" and audience = None
        and parsed = "JObj [(''iat'', JInt 1000)]"
      and header_json = \<open>''{"typ":"JWT","alg":"RS256"}''\<close>
      and payload_json = \<open>''{"iat":1000}''\<close> and signature = "''A9B''", folded example_tokens(7)]
      absent block
    by simp
qed

text \<open>
  C7. The audience check is never reached from a token. The token that the specification
  describes makes the call raise \<^verbatim>\<open>TypeError\<close>, with an expected audience or without one, and
  no call ends in "No aud field" or "Wrong recipient". The audience block by itself does what
  the claim says: it is skipped without an expected audience, and with one it raises "No aud
  field" when \<^verbatim>\<open>parsed.get('aud')\<close> is \<^verbatim>\<open>None\<close>, "Wrong recipient" when \<^verbatim>\<open>aud\<close> differs, and
  passes when \<^verbatim>\<open>aud\<close> equals it.
\<close>

theorem C7_audience_check_unreached:
  "verify_signed_jwt_with_certs lib fp Verifier now
     (spec_compact_token header_json payload_json signature) certs audience = Inl TypeError \<and>
   verify_signed_jwt_with_certs lib fp Verifier now jwt certs audience
     \<noteq> Inl (AppIdentityError No_aud_field) \<and>
   verify_signed_jwt_with_certs lib fp Verifier now jwt certs audience
     \<noteq> Inl (AppIdentityError Wrong_recipient) \<and>
   check_audience parsed None = Inr () \<and>
   (dict_get parsed ''aud'' = Inr aud \<longrightarrow>
      check_audience parsed (Some expected)
        = (if aud = JNull then Inl (AppIdentityError No_aud_field)
           else if aud \<noteq> JStr expected then Inl (AppIdentityError Wrong_recipient)
           else Inr ()))"
  using verify_spec_token [of lib fp Verifier now header_json payload_json signature certs audience]
    verify_never_message [of No_aud_field lib fp Verifier now jwt certs audience]
    verify_never_message [of Wrong_recipient lib fp Verifier now jwt certs audience]
  by (simp add: check_audience_def)

theorem C7_audience_check_unreached_witness:
  "verify_signed_jwt_with_certs example_lib example_floats OpenSSL 1000 example_jwt_aud
     [(''a'', cert_a)] (Some ''svc-y'') = Inl TypeError \<and>
   verify_signed_jwt_with_certs example_lib example_floats OpenSSL 1000 example_jwt_aud
     [(''a'', cert_a)] None = Inl TypeError \<and>
   verify_signed_jwt_with_certs example_lib example_floats OpenSSL 1000 example_jwt_aud
     [(''a'', cert_a)] (Some ''svc-x'') = Inl TypeError \<and>
   check_audience (JObj [(''iat'', JInt 1000), (''exp'', JInt 2000), (''aud'', JStr ''svc-x'')])
     (Some ''svc-y'') = Inl (AppIdentityError Wrong_recipient)"
proof -
  have aud: "dict_get (JObj [(''iat'', JInt 1000), (''exp'', JInt 2000), (''aud'', JStr ''svc-x'')])
      ''aud'' = Inr (JStr ''svc-x'')"
    by simp
  note at = C7_audience_check_unreached [where lib = example_lib and fp = example_floats
      and Verifier = OpenSSL and now = 1000 and certs = "[(''a'', cert_a)]"
      and parsed = "JObj [(''iat'', JInt 1000), (''exp'', JInt 2000), (''aud'', JStr ''svc-x'')]"
      and aud = "JStr ''svc-x''" and expected = "''svc-y''"
      and header_json = \<open>''{"typ":"JWT","alg":"RS256"}''\<close>
      and payload_json = \<open>''{"iat":1000,"exp":2000,"aud":"svc-x"}''\<close> and signature = "''AQf''", folded example_tokens(4)]
  show ?thesis
    using at [where audience = "Some ''svc-y''"] at [where audience = None]
      at [where audience = "Some ''svc-x''"] aud
    by simp
qed

text \<open>
  C8. \<^verbatim>\<open>verify\<close> of either verifier class always returns a boolean: an exception of the
  underlying primitive (a bad signature for pyOpenSSL, any parsing or format error) becomes
  \<^verbatim>\<open>False\<close>, and so does the \<^verbatim>\<open>False\<close> that PyCrypto returns for a bad signature.
\<close>

theorem C8_verify_never_raises:
  "(\<exists>b. OpenSSLVerifier_verify lib pubkey message signature = Inr b) \<and>
   (\<exists>b. PyCryptoVerifier_verify lib pubkey message signature = Inr b) \<and>
   (\<exists>b. verifier_verify lib verifier message signature = Inr b) \<and>
   (\<forall>e. crypto_verify lib pubkey signature message = Inl e \<longrightarrow>
        OpenSSLVerifier_verify lib pubkey message signature = Inr False) \<and>
   (\<forall>e. PKCS1_v1_5_verify lib pubkey message signature = Inl e \<longrightarrow>
        PyCryptoVerifier_verify lib pubkey message signature = Inr False) \<and>
   (PKCS1_v1_5_verify lib pubkey message signature = Inr False \<longrightarrow>
        PyCryptoVerifier_verify lib pubkey message signature = Inr False)"
proof -
  have o: "\<exists>b. OpenSSLVerifier_verify lib k message signature = Inr b" for k
    by (cases "crypto_verify lib k signature message") (auto simp: OpenSSLVerifier_verify_def)
  have p: "\<exists>b. PyCryptoVerifier_verify lib k message signature = Inr b" for k
    by (cases "PKCS1_v1_5_verify lib k message signature")
      (auto simp: PyCryptoVerifier_verify_def)
  have v: "\<exists>b. verifier_verify lib verifier message signature = Inr b"
    using o p by (cases verifier) simp_all
  show ?thesis
    using o p v by (simp add: OpenSSLVerifier_verify_def PyCryptoVerifier_verify_def)
qed

theorem C8_verify_never_raises_witness:
  "crypto_verify example_lib ''A'' ''bad'' ''message'' = Inl CryptoError \<and>
   OpenSSLVerifier_verify example_lib ''A'' ''message'' ''bad'' = Inr False \<and>
   PKCS1_v1_5_verify example_lib ''A'' ''message'' ''bad'' = Inr False \<and>
   PyCryptoVerifier_verify example_lib ''A'' ''message'' ''bad'' = Inr False \<and>
   PyCryptoVerifier_verify (example_lib\<lparr>PKCS1_v1_5_verify := \<lambda>key message signature. Inl ValueError\<rparr>)
     ''A'' ''message'' ''bad'' = Inr False"
proof -
  have a: "crypto_verify example_lib ''A'' ''bad'' ''message'' = Inl CryptoError"
    by (simp add: example_lib_def example_mac_def)
  have b: "PKCS1_v1_5_verify example_lib ''A'' ''message'' ''bad'' = Inr False"
    by (simp add: example_lib_def example_mac_def)
  have c: "PKCS1_v1_5_verify (example_lib\<lparr>PKCS1_v1_5_verify := \<lambda>key message signature. Inl ValueError\<rparr>)
     ''A'' ''message'' ''bad'' = Inl ValueError"
    by simp
  show ?thesis
    using C8_verify_never_raises [of example_lib "''A''" "''message''" "''bad''"]
      C8_verify_never_raises [of "example_lib\<lparr>PKCS1_v1_5_verify := \<lambda>key message signature. Inl ValueError\<rparr>"
        "''A''" "''message''" "''bad''"] a b c
    by simp
qed

text \<open>
  C9. No token is accepted: \<^verbatim>\<open>verify_signed_jwt_with_certs\<close> returns a payload for no
  argument, and the timestamp block passes for no payload. So the token of the claim, with
  \<open>iat = now + skew\<close> and \<open>exp = now - skew\<close>, is not accepted either: the call raises
  \<^verbatim>\<open>TypeError\<close>.
\<close>

theorem C9_no_token_accepted:
  "verify_signed_jwt_with_certs lib fp Verifier now jwt certs audience \<noteq> Inr parsed \<and>
   check_timestamps fp now parsed \<noteq> Inr () \<and>
   verify_signed_jwt_with_certs lib fp Verifier now
     (spec_compact_token header_json payload_json signature) certs audience = Inl TypeError"
  using verify_never_returns [of lib fp Verifier now jwt certs audience parsed]
    check_timestamps_never (1) [of fp now parsed]
    verify_spec_token [of lib fp Verifier now header_json payload_json signature certs audience]
  by simp

theorem C9_no_token_accepted_witness:
  "(400::int) < 1000 \<and> (1000::int) = 700 + CLOCK_SKEW_SECS \<and> (400::int) = 700 - CLOCK_SKEW_SECS \<and>
   verify_signed_jwt_with_certs example_lib example_floats OpenSSL 700 example_jwt_backdated
     [(''a'', cert_a)] None = Inl TypeError"
  using C9_no_token_accepted [where lib = example_lib and fp = example_floats
      and Verifier = OpenSSL and now = 700 and certs = "[(''a'', cert_a)]" and audience = None
      and header_json = \<open>''{"typ":"JWT","alg":"RS256"}''\<close>
      and payload_json = \<open>''{"iat":1000,"exp":400}''\<close> and signature = "''AQf''",
      folded example_tokens(3)]
  by (simp add: CLOCK_SKEW_SECS_def)

text \<open>
  C10. The helpers do not round-trip: \<^verbatim>\<open>_urlsafe_b64encode\<close> raises \<^verbatim>\<open>TypeError\<close> for every
  byte string (and for every text), at the \<^verbatim>\<open>rstrip\<close> of line 260. \<^verbatim>\<open>_urlsafe_b64decode\<close>,
  given the encoding that the specification describes, raises \<^verbatim>\<open>TypeError\<close> at line 266,
  where it appends text padding to bytes, also when the length of the encoding is a multiple
  of four; given bytes it raises \<^verbatim>\<open>AttributeError\<close>.
\<close>

theorem C10_helpers_raise:
  "urlsafe_b64encode_helper (Bytes raw_bytes) = Inl TypeError \<and>
   urlsafe_b64encode_helper (Str text) = Inl TypeError \<and>
   urlsafe_b64decode_helper (Str (spec_base64url raw_bytes)) = Inl TypeError \<and>
   urlsafe_b64decode_helper (Bytes b) = Inl AttributeError"
proof -
  have "\<not> (\<exists>c \<in> set (spec_base64url raw_bytes). of_char c > (127::nat))"
    using spec_base64url_chars (1) [of _ raw_bytes] by blast
  then show ?thesis
    by (simp add: urlsafe_b64encode_helper_raises urlsafe_b64decode_helper_raises)
qed

theorem C10_helpers_raise_witness:
  "spec_base64url ''abc'' = ''YWJj'' \<and> length ''YWJj'' mod 4 = 0 \<and>
   urlsafe_b64encode_helper (Bytes ''abc'') = Inl TypeError \<and>
   urlsafe_b64decode_helper (Str ''YWJj'') = Inl TypeError \<and>
   base64_urlsafe_b64decode (Bytes ''YWJj===='') = Inr ''abc''"
proof -
  have enc: "spec_base64url ''abc'' = ''YWJj''"
    by code_simp
  have lib: "base64_urlsafe_b64decode (Bytes ''YWJj===='') = Inr ''abc''"
    by code_simp
  show ?thesis
    using C10_helpers_raise [of "''abc''"] enc lib by simp
qed

end
